theory Spec2Isabelle
  imports Complex_Main
begin

section \<open>Python values reaching the loader\<close>

text \<open>
  The loader receives what \<^verbatim>\<open>json.load\<close> produces: \<^verbatim>\<open>None\<close>, booleans, integers, floats,
  strings, lists and dicts with string keys.  A dict is an association list read with
  \<^const>\<open>map_of\<close>; the decoder produces each key once.
\<close>

datatype json =
    JNull
  | JBool bool
  | JInt int
  | JFloat real
  | JStr string
  | JList "json list"
  | JDict "(string \<times> json) list"

text \<open>Python truthiness (\<^verbatim>\<open>not x\<close>, \<^verbatim>\<open>x or y\<close>, \<^verbatim>\<open>if x\<close>).\<close>

fun truthy :: "json \<Rightarrow> bool" where
  "truthy JNull = False"
| "truthy (JBool b) = b"
| "truthy (JInt i) = (i \<noteq> 0)"
| "truthy (JFloat r) = (r \<noteq> 0)"
| "truthy (JStr s) = (s \<noteq> [])"
| "truthy (JList xs) = (xs \<noteq> [])"
| "truthy (JDict d) = (d \<noteq> [])"

text \<open>\<^verbatim>\<open>d.get(k)\<close> (default \<^verbatim>\<open>None\<close>) and \<^verbatim>\<open>d.get(k, [])\<close> on a dict.\<close>

definition dict_get :: "(string \<times> json) list \<Rightarrow> string \<Rightarrow> json" where
  "dict_get d k = (case map_of d k of None \<Rightarrow> JNull | Some v \<Rightarrow> v)"

definition dict_get_list :: "(string \<times> json) list \<Rightarrow> string \<Rightarrow> json" where
  "dict_get_list d k = (case map_of d k of None \<Rightarrow> JList [] | Some v \<Rightarrow> v)"

text \<open>The numeric value of a number; booleans are the integers 0 and 1.\<close>

fun num_of :: "json \<Rightarrow> real option" where
  "num_of (JBool b) = Some (if b then 1 else 0)"
| "num_of (JInt i) = Some (real_of_int i)"
| "num_of (JFloat r) = Some r"
| "num_of _ = None"

text \<open>Python \<^verbatim>\<open>==\<close> on decoded values.\<close>

fun py_eq :: "json \<Rightarrow> json \<Rightarrow> bool" where
  "py_eq (JStr s) (JStr t) = (s = t)"
| "py_eq (JList xs) (JList ys) = list_all2 py_eq xs ys"
| "py_eq (JDict d) (JDict e) =
     (set (map fst d) = set (map fst e) \<and>
      list_all (\<lambda>kv. case map_of e (fst kv) of None \<Rightarrow> False | Some w \<Rightarrow> py_eq (snd kv) w) d)"
| "py_eq JNull JNull = True"
| "py_eq a b = (case (num_of a, num_of b) of (Some x, Some y) \<Rightarrow> x = y | _ \<Rightarrow> False)"


section \<open>Errors\<close>

text \<open>
  One constructor for each exception the code can raise, named after the Python exception
  and, where the source raises it itself, after its message.
\<close>

datatype error =
    ValueError_record_type_undefined      \<comment> \<open>db.py line 16\<close>
  | Exception_cant_define_PTR             \<comment> \<open>db.py line 19\<close>
  | StopIteration                         \<comment> \<open>\<^verbatim>\<open>next\<close> on an exhausted filter, db.py line 21;
                                              it leaves the coroutine as a \<^verbatim>\<open>RuntimeError\<close>\<close>
  | TypeError                             \<comment> \<open>raised by the interpreter: missing or unexpected
                                              argument, not iterable, not subscriptable, unhashable\<close>
  | KeyError                              \<comment> \<open>\<^verbatim>\<open>record['type']\<close> on a dict without that key\<close>
  | UnboundLocalError                     \<comment> \<open>reading a local variable never assigned\<close>
  | AttributeError                        \<comment> \<open>attribute missing on the object\<close>
  | ValueError_TTL                        \<comment> \<open>zone.py line 30\<close>
  | ValueError_Invalid_IPv4               \<comment> \<open>zone.py line 47\<close>
  | ValueError_Invalid_IPv6               \<comment> \<open>zone.py line 61\<close>
  | ValueError_Hostname_empty             \<comment> \<open>zone.py line 161\<close>
  | ValueError_Invalid_hostname           \<comment> \<open>zone.py line 163\<close>
  | ValueError_TXT_too_long               \<comment> \<open>zone.py line 83\<close>
  | ValueError_ip_address                 \<comment> \<open>\<^verbatim>\<open>ipaddress.ip_address\<close> on a value that is no address\<close>
  | Exception_namespace_should_be_string  \<comment> \<open>db.py line 44\<close>
  | Exception_subzone_cant_be_root        \<comment> \<open>db.py line 47\<close>
  | Exception_root_identifier             \<comment> \<open>db.py line 50\<close>
  | Exception_root_cant_have_record       \<comment> \<open>db.py line 53\<close>

text \<open>Sequencing of fallible steps: the first exception ends the computation.\<close>

definition and_then :: "error + 'a \<Rightarrow> ('a \<Rightarrow> error + 'b) \<Rightarrow> error + 'b" where
  "and_then m f = (case m of Inl e \<Rightarrow> Inl e | Inr x \<Rightarrow> f x)"

section \<open>The address library\<close>

text \<open>
  The standard module \<^verbatim>\<open>ipaddress\<close> is not part of the repository.  Its four entry points the
  code calls are parameters: the two family constructors and \<^verbatim>\<open>ip_address\<close>, each giving the
  parsed address or \<open>None\<close> where the library raises, and the \<^verbatim>\<open>reverse_pointer\<close> property.
  Parsed addresses are compared by the library's own equality, here equality on \<open>'ip\<close>.
\<close>

record 'ip iplib =
  IPv4Address :: "json \<Rightarrow> 'ip option"
  IPv6Address :: "json \<Rightarrow> 'ip option"
  ip_address :: "json \<Rightarrow> 'ip option"
  reverse_pointer :: "'ip \<Rightarrow> string"

section \<open>Record kinds and record classes (zone.py)\<close>

datatype RecordType = A | AAAA | CNAME | TXT | PTR

text \<open>\<^verbatim>\<open>RecordType[name]\<close>: lookup of a member by its name.\<close>

fun RecordType_by_name :: "string \<Rightarrow> RecordType option" where
  "RecordType_by_name s =
     (if s = ''A'' then Some A else if s = ''AAAA'' then Some AAAA
      else if s = ''CNAME'' then Some CNAME else if s = ''TXT'' then Some TXT
      else if s = ''PTR'' then Some PTR else None)"

text \<open>
  The \<^verbatim>\<open>record_type\<close> field of a record holds the class default, a member of the enumeration,
  unless the constructor was given another value.
\<close>

datatype rtval = Member RecordType | Raw json

fun rtval_eq :: "rtval \<Rightarrow> rtval \<Rightarrow> bool" where
  "rtval_eq (Member a) (Member b) = (a = b)"
| "rtval_eq (Raw x) (Raw y) = py_eq x y"
| "rtval_eq _ _ = False"

text \<open>
  The four dataclasses.  Their dataclass fields are the annotations of the class itself:
  \<^verbatim>\<open>address\<close>, \<^verbatim>\<open>ptr_record\<close>, \<^verbatim>\<open>record_type\<close> for the address records, \<^verbatim>\<open>target\<close> or \<^verbatim>\<open>text\<close> and
  \<^verbatim>\<open>record_type\<close> for the other two.  \<^verbatim>\<open>ttl\<close> is annotated in \<^verbatim>\<open>BaseRecord\<close>, which is no
  dataclass: it is a class attribute (\<^verbatim>\<open>None\<close>) that the generated \<^verbatim>\<open>__init__\<close> does not accept and
  the generated \<^verbatim>\<open>__eq__\<close> does not read; an instance gets another value only by assignment.
  The generated \<^verbatim>\<open>__init__\<close> checks no types, so a field holds whatever value was passed.
\<close>

datatype DNSRecord =
    ARecord (address: json) (ptr_record: json) (record_type: rtval) (ttl: "int option")
  | AAAARecord (address: json) (ptr_record: json) (record_type: rtval) (ttl: "int option")
  | CNAMERecord (target: json) (record_type: rtval) (ttl: "int option")
  | TXTRecord (text_of: json) (record_type: rtval) (ttl: "int option")

text \<open>
  The \<^verbatim>\<open>__eq__\<close> that \<^verbatim>\<open>@dataclass\<close> generates: the operands are of the same class and the
  tuples of their dataclass fields are equal.  Used by \<^verbatim>\<open>in\<close> on a list of records.
\<close>

fun record_eq :: "DNSRecord \<Rightarrow> DNSRecord \<Rightarrow> bool" where
  "record_eq (ARecord a p t _) (ARecord a' p' t' _) = (py_eq a a' \<and> py_eq p p' \<and> rtval_eq t t')"
| "record_eq (AAAARecord a p t _) (AAAARecord a' p' t' _) = (py_eq a a' \<and> py_eq p p' \<and> rtval_eq t t')"
| "record_eq (CNAMERecord g t _) (CNAMERecord g' t' _) = (py_eq g g' \<and> rtval_eq t t')"
| "record_eq (TXTRecord x t _) (TXTRecord x' t' _) = (py_eq x x' \<and> rtval_eq t t')"
| "record_eq _ _ = False"

text \<open>\<^verbatim>\<open>BaseRecord.__post_init__\<close>, on a \<^verbatim>\<open>ttl\<close> of its declared type.\<close>

definition BaseRecord_post_init :: "int option \<Rightarrow> error + unit" where
  "BaseRecord_post_init t =
     (case t of None \<Rightarrow> Inr () | Some n \<Rightarrow> if n < 0 then Inl ValueError_TTL else Inr ())"


text \<open>
  A call \<^verbatim>\<open>cls(**kw)\<close> of a generated \<^verbatim>\<open>__init__\<close>: a keyword that names no field, or a field
  without default that no keyword supplies, is a \<^verbatim>\<open>TypeError\<close>.
\<close>

definition unexpected_keyword :: "string list \<Rightarrow> (string \<times> json) list \<Rightarrow> bool" where
  "unexpected_keyword names kw = list_ex (\<lambda>k. k \<notin> set names) (map fst kw)"

definition field_or :: "(string \<times> json) list \<Rightarrow> string \<Rightarrow> json \<Rightarrow> json" where
  "field_or kw k dflt = (case map_of kw k of None \<Rightarrow> dflt | Some v \<Rightarrow> v)"

definition record_type_or :: "(string \<times> json) list \<Rightarrow> RecordType \<Rightarrow> rtval" where
  "record_type_or kw dflt = (case map_of kw ''record_type'' of None \<Rightarrow> Member dflt | Some v \<Rightarrow> Raw v)"

text \<open>\<^verbatim>\<open>ARecord(**kw)\<close> and \<^verbatim>\<open>AAAARecord(**kw)\<close> with their \<^verbatim>\<open>__post_init__\<close>.\<close>

definition ARecord_new :: "'ip iplib \<Rightarrow> (string \<times> json) list \<Rightarrow> error + DNSRecord" where
  "ARecord_new L kw =
     (if unexpected_keyword [''address'', ''ptr_record'', ''record_type''] kw then Inl TypeError
      else case map_of kw ''address'' of
        None \<Rightarrow> Inl TypeError
      | Some a \<Rightarrow>
          (let self = ARecord a (field_or kw ''ptr_record'' (JBool False)) (record_type_or kw A) None
           in and_then (BaseRecord_post_init (ttl self)) (\<lambda>_.
                case IPv4Address L (address self) of
                  None \<Rightarrow> Inl ValueError_Invalid_IPv4
                | Some _ \<Rightarrow> Inr self)))"

definition AAAARecord_new :: "'ip iplib \<Rightarrow> (string \<times> json) list \<Rightarrow> error + DNSRecord" where
  "AAAARecord_new L kw =
     (if unexpected_keyword [''address'', ''ptr_record'', ''record_type''] kw then Inl TypeError
      else case map_of kw ''address'' of
        None \<Rightarrow> Inl TypeError
      | Some a \<Rightarrow>
          (let self = AAAARecord a (field_or kw ''ptr_record'' (JBool False)) (record_type_or kw AAAA) None
           in and_then (BaseRecord_post_init (ttl self)) (\<lambda>_.
                case IPv6Address L (address self) of
                  None \<Rightarrow> Inl ValueError_Invalid_IPv6
                | Some _ \<Rightarrow> Inr self)))"

text \<open>
  \<^verbatim>\<open>validate_hostname\<close>: \<^verbatim>\<open>not name\<close>, then \<^verbatim>\<open>" " in name\<close>, which is a substring test on a
  string, a membership test on a list or on the keys of a dict, and a \<^verbatim>\<open>TypeError\<close> on a number.
\<close>

fun validate_hostname :: "json \<Rightarrow> error + unit" where
  "validate_hostname name =
     (if \<not> truthy name then Inl ValueError_Hostname_empty
      else case name of
        JStr s \<Rightarrow> if CHR '' '' \<in> set s then Inl ValueError_Invalid_hostname else Inr ()
      | JList xs \<Rightarrow> if list_ex (\<lambda>x. py_eq x (JStr '' '')) xs then Inl ValueError_Invalid_hostname else Inr ()
      | JDict d \<Rightarrow> if '' '' \<in> set (map fst d) then Inl ValueError_Invalid_hostname else Inr ()
      | _ \<Rightarrow> Inl TypeError)"

definition CNAMERecord_new :: "(string \<times> json) list \<Rightarrow> error + DNSRecord" where
  "CNAMERecord_new kw =
     (if unexpected_keyword [''target'', ''record_type''] kw then Inl TypeError
      else case map_of kw ''target'' of
        None \<Rightarrow> Inl TypeError
      | Some g \<Rightarrow>
          (let self = CNAMERecord g (record_type_or kw CNAME) None
           in and_then (BaseRecord_post_init (ttl self)) (\<lambda>_.
              and_then (validate_hostname (target self)) (\<lambda>_. Inr self))))"

text \<open>\<^verbatim>\<open>len(x)\<close>; a number has no length.\<close>

fun py_len :: "json \<Rightarrow> error + nat" where
  "py_len (JStr s) = Inr (length s)"
| "py_len (JList xs) = Inr (length xs)"
| "py_len (JDict d) = Inr (length d)"
| "py_len _ = Inl TypeError"

definition TXTRecord_new :: "(string \<times> json) list \<Rightarrow> error + DNSRecord" where
  "TXTRecord_new kw =
     (if unexpected_keyword [''text'', ''record_type''] kw then Inl TypeError
      else case map_of kw ''text'' of
        None \<Rightarrow> Inl TypeError
      | Some x \<Rightarrow>
          (let self = TXTRecord x (record_type_or kw TXT) None
           in and_then (BaseRecord_post_init (ttl self)) (\<lambda>_.
              and_then (py_len (text_of self)) (\<lambda>n.
                if n > 255 then Inl ValueError_TXT_too_long else Inr self))))"

text \<open>
  \<^verbatim>\<open>PTRRecord\<close> keeps its own \<^verbatim>\<open>__init__\<close>: the host as given and the reverse pointer of the
  parsed address.  Its \<^verbatim>\<open>record_type\<close> is the class default in every instance, so the generated
  \<^verbatim>\<open>__eq__\<close> compares the pair of host and reverse pointer: equality of this datatype.
\<close>

datatype PTRRecord = PTRRecord (ptr_host: string) (ptr_address: string)

definition PTRRecord_new :: "'ip iplib \<Rightarrow> string \<Rightarrow> json \<Rightarrow> error + PTRRecord" where
  "PTRRecord_new L h a =
     (case ip_address L a of
        None \<Rightarrow> Inl ValueError_ip_address
      | Some ip \<Rightarrow> Inr (PTRRecord h (reverse_pointer L ip)))"


section \<open>The record loader (db.py, \<^verbatim>\<open>load_records\<close>)\<close>

text \<open>\<^verbatim>\<open>for record in records\<close>: the elements of a list, the keys of a dict, the characters of a string.\<close>

fun py_iter :: "json \<Rightarrow> error + json list" where
  "py_iter (JList xs) = Inr xs"
| "py_iter (JDict d) = Inr (map (\<lambda>kv. JStr (fst kv)) d)"
| "py_iter (JStr s) = Inr (map (\<lambda>c. JStr [c]) s)"
| "py_iter _ = Inl TypeError"

text \<open>\<^verbatim>\<open>record['type']\<close>: only a dict can be indexed by a string.\<close>

fun getitem_type :: "json \<Rightarrow> error + json" where
  "getitem_type (JDict d) = (case map_of d ''type'' of None \<Rightarrow> Inl KeyError | Some v \<Rightarrow> Inr v)"
| "getitem_type _ = Inl TypeError"

text \<open>
  Lines 13 to 16: \<^verbatim>\<open>RecordType[type]\<close> with the \<^verbatim>\<open>KeyError\<close> turned into a \<^verbatim>\<open>ValueError\<close>.  A list or
  a dict is unhashable, which is a \<^verbatim>\<open>TypeError\<close> that the handler does not catch.
\<close>

fun RecordType_getitem :: "json \<Rightarrow> error + RecordType" where
  "RecordType_getitem (JStr s) =
     (case RecordType_by_name s of None \<Rightarrow> Inl ValueError_record_type_undefined | Some t \<Rightarrow> Inr t)"
| "RecordType_getitem (JList _) = Inl TypeError"
| "RecordType_getitem (JDict _) = Inl TypeError"
| "RecordType_getitem _ = Inl ValueError_record_type_undefined"

text \<open>
  Line 18, \<^verbatim>\<open>isinstance(rtype, PTRRecord)\<close>: \<^verbatim>\<open>rtype\<close> is a member of the enumeration \<^verbatim>\<open>RecordType\<close>,
  never an instance of the class \<^verbatim>\<open>PTRRecord\<close>.
\<close>

definition isinstance_PTRRecord :: "RecordType \<Rightarrow> bool" where
  "isinstance_PTRRecord rtype = False"

text \<open>
  The four classes line 21 searches, each with its class attribute \<^verbatim>\<open>record_type\<close>, the
  names its own \<^verbatim>\<open>__annotations__\<close> holds, and its constructor.
\<close>

record record_class =
  cls_record_type :: RecordType
  cls_annotations :: "string list"
  cls_new :: "(string \<times> json) list \<Rightarrow> error + DNSRecord"

definition record_classes :: "'ip iplib \<Rightarrow> record_class list" where
  "record_classes L =
     [\<lparr>cls_record_type = A, cls_annotations = [''address'', ''ptr_record'', ''record_type''],
       cls_new = ARecord_new L\<rparr>,
      \<lparr>cls_record_type = AAAA, cls_annotations = [''address'', ''ptr_record'', ''record_type''],
       cls_new = AAAARecord_new L\<rparr>,
      \<lparr>cls_record_type = CNAME, cls_annotations = [''target'', ''record_type''],
       cls_new = CNAMERecord_new\<rparr>,
      \<lparr>cls_record_type = TXT, cls_annotations = [''text'', ''record_type''],
       cls_new = TXTRecord_new\<rparr>]"

text \<open>Line 21: \<^verbatim>\<open>next(filter(...))\<close>, which raises \<^verbatim>\<open>StopIteration\<close> when no class matches.\<close>

definition next_record_class :: "'ip iplib \<Rightarrow> RecordType \<Rightarrow> error + record_class" where
  "next_record_class L rtype =
     (case find (\<lambda>t. cls_record_type t = rtype) (record_classes L) of
        None \<Rightarrow> Inl StopIteration
      | Some t \<Rightarrow> Inr t)"

text \<open>Line 23: the annotations of the class intersected with the one name \<^verbatim>\<open>record_type\<close>.\<close>

definition record_params :: "record_class \<Rightarrow> string list" where
  "record_params cls = filter (\<lambda>n. n \<in> set [''record_type'']) (cls_annotations cls)"

text \<open>\<^verbatim>\<open>record.items()\<close>; reached only when \<^verbatim>\<open>record\<close> is a dict.\<close>

fun items :: "json \<Rightarrow> (string \<times> json) list" where
  "items (JDict d) = d"
| "items _ = []"

text \<open>Lines 29 to 33: the reverse pointer of an address record that asks for one.\<close>

fun is_address_record :: "DNSRecord \<Rightarrow> bool" where
  "is_address_record (ARecord _ _ _ _) = True"
| "is_address_record (AAAARecord _ _ _ _) = True"
| "is_address_record _ = False"

definition add_ptr :: "'ip iplib \<Rightarrow> string \<Rightarrow> DNSRecord \<Rightarrow> PTRRecord list \<Rightarrow> error + PTRRecord list" where
  "add_ptr L h record_ins ptr_records =
     (if is_address_record record_ins \<and> truthy (ptr_record record_ins) then
        and_then (PTRRecord_new L h (address record_ins)) (\<lambda>ptr.
          Inr (if ptr \<notin> set ptr_records then ptr_records @ [ptr] else ptr_records))
      else Inr ptr_records)"

text \<open>Lines 35 and 36: the record joins the list unless an equal one is in it.\<close>

definition add_record :: "DNSRecord \<Rightarrow> DNSRecord list \<Rightarrow> DNSRecord list" where
  "add_record record_ins records_ins =
     (if \<not> list_ex (\<lambda>r. record_eq r record_ins) records_ins then records_ins @ [record_ins]
      else records_ins)"

text \<open>
  The state of the loop: the list \<^verbatim>\<open>records_ins\<close>, the shared list \<^verbatim>\<open>ptr_records\<close>, and the local
  variable \<^verbatim>\<open>record_ins\<close>, unassigned (\<open>None\<close>) before the first pass.
\<close>

type_synonym loop_state = "DNSRecord list \<times> PTRRecord list \<times> DNSRecord option"

text \<open>One pass of the loop body, lines 11 to 36.\<close>

definition load_record :: "'ip iplib \<Rightarrow> string \<Rightarrow> json \<Rightarrow> loop_state \<Rightarrow> error + loop_state" where
  "load_record L h record st =
     (case st of (records_ins, ptr_records, _) \<Rightarrow>
        and_then (getitem_type record) (\<lambda>type.
        and_then (RecordType_getitem type) (\<lambda>rtype.
          if isinstance_PTRRecord rtype then Inl Exception_cant_define_PTR
          else
            and_then (next_record_class L rtype) (\<lambda>record_type.
              let params = filter (\<lambda>param. fst param \<in> set (record_params record_type)) (items record)
              in and_then (cls_new record_type params) (\<lambda>record_ins.
                 and_then (add_ptr L h record_ins ptr_records) (\<lambda>ptr_records'.
                   Inr (add_record record_ins records_ins, ptr_records', Some record_ins)))))))"

fun load_records_loop :: "'ip iplib \<Rightarrow> string \<Rightarrow> json list \<Rightarrow> loop_state \<Rightarrow> error + loop_state" where
  "load_records_loop L h [] st = Inr st"
| "load_records_loop L h (record # rest) st =
     and_then (load_record L h record st) (load_records_loop L h rest)"

text \<open>
  \<^verbatim>\<open>load_records\<close>.  Line 38 returns the local variable \<^verbatim>\<open>record_ins\<close>, the record of the last
  pass, not the list \<^verbatim>\<open>records_ins\<close>; with no pass the variable is unbound.  The result carries
  the shared list \<^verbatim>\<open>ptr_records\<close> as the call leaves it.
\<close>

definition load_records :: "json \<Rightarrow> string \<Rightarrow> 'ip iplib \<Rightarrow> PTRRecord list \<Rightarrow> error + DNSRecord \<times> PTRRecord list" where
  "load_records records h L ptr_records =
     and_then (py_iter records) (\<lambda>rs.
     and_then (load_records_loop L h rs ([], ptr_records, None)) (\<lambda>st.
       case st of (records_ins, ptr_records', record_ins) \<Rightarrow>
         (case record_ins of
            None \<Rightarrow> Inl UnboundLocalError
          | Some r \<Rightarrow> Inr (r, ptr_records'))))"

section \<open>Source identifiers (zone.py)\<close>

text \<open>\<^verbatim>\<open>RecursionSource\<close> and \<^verbatim>\<open>RequestSource\<close>: two dataclasses with the one field \<^verbatim>\<open>address\<close>.\<close>

datatype source = RecursionSource (src_address: json) | RequestSource (src_address: json)

text \<open>Both \<^verbatim>\<open>__post_init__\<close> methods: \<^verbatim>\<open>ip_address\<close> must accept the address.\<close>

definition source_new :: "'ip iplib \<Rightarrow> (json \<Rightarrow> source) \<Rightarrow> json \<Rightarrow> error + source" where
  "source_new L cls a =
     (case ip_address L a of None \<Rightarrow> Inl ValueError_ip_address | Some _ \<Rightarrow> Inr (cls a))"

text \<open>What a source is compared with: a decoded value, an address of the library, or another source.\<close>

datatype 'ip operand = OJson json | OAddr 'ip | OSource source

text \<open>
  \<^verbatim>\<open>IPComparableMixin.__eq__\<close> as written, \<open>None\<close> for \<^verbatim>\<open>NotImplemented\<close>.  A string and an object
  with an \<^verbatim>\<open>address\<close> are parsed inside the \<^verbatim>\<open>try\<close>; against an address of the library the own
  address is parsed outside of any \<^verbatim>\<open>try\<close>; a decoded value that is no string has no \<^verbatim>\<open>address\<close>.  \<^verbatim>\<open>IPComparableMixin.__hash__\<close> hashes the parsed address, with the library's hash
  as parameter.
\<close>

definition IPComparableMixin_eq :: "'ip iplib \<Rightarrow> source \<Rightarrow> 'ip operand \<Rightarrow> error + bool option" where
  "IPComparableMixin_eq L self other =
     (case other of
        OJson (JStr s) \<Rightarrow>
          (case (ip_address L (src_address self), ip_address L (JStr s)) of
             (Some a, Some b) \<Rightarrow> Inr (Some (a = b))
           | _ \<Rightarrow> Inr (Some False))
      | OAddr b \<Rightarrow>
          (case ip_address L (src_address self) of
             None \<Rightarrow> Inl ValueError_ip_address
           | Some a \<Rightarrow> Inr (Some (a = b)))
      | OSource src \<Rightarrow>
          (case (ip_address L (src_address self), ip_address L (src_address src)) of
             (Some a, Some b) \<Rightarrow> Inr (Some (a = b))
           | _ \<Rightarrow> Inr (Some False))
      | OJson _ \<Rightarrow> Inr None)"

definition IPComparableMixin_hash :: "'ip iplib \<Rightarrow> ('ip \<Rightarrow> int) \<Rightarrow> source \<Rightarrow> error + int" where
  "IPComparableMixin_hash L hash_ip self =
     (case ip_address L (src_address self) of
        None \<Rightarrow> Inl ValueError_ip_address
      | Some a \<Rightarrow> Inr (hash_ip a))"

text \<open>
  The two classes are decorated with \<^verbatim>\<open>@dataclass\<close> and define neither \<^verbatim>\<open>__eq__\<close> nor \<^verbatim>\<open>__hash__\<close>
  in their own body, so the decorator gives each class its own \<^verbatim>\<open>__eq__\<close> (same class and equal
  field tuples, otherwise \<^verbatim>\<open>NotImplemented\<close>) and sets its \<^verbatim>\<open>__hash__\<close> to \<^verbatim>\<open>None\<close>.  These are
  found before the methods of the mixin, which instances of the two classes never reach.
\<close>

fun same_class :: "source \<Rightarrow> source \<Rightarrow> bool" where
  "same_class (RecursionSource _) (RecursionSource _) = True"
| "same_class (RequestSource _) (RequestSource _) = True"
| "same_class _ _ = False"

definition dataclass_eq :: "source \<Rightarrow> 'ip operand \<Rightarrow> bool option" where
  "dataclass_eq self other =
     (case other of
        OSource src \<Rightarrow>
          if same_class self src then Some (py_eq (src_address self) (src_address src)) else None
      | OJson _ \<Rightarrow> None
      | OAddr _ \<Rightarrow> None)"

text \<open>
  The operator \<^verbatim>\<open>self == other\<close>: the method of the left operand, then the reflected method of
  the right one, then identity, which fails for two objects of different classes.  The
  reflected method of a decoded value gives \<^verbatim>\<open>NotImplemented\<close>; that of a library address compares
  its integer \<^verbatim>\<open>_ip\<close> with the attribute \<^verbatim>\<open>_ip\<close> of the source, which is a method, and gives
  \<^verbatim>\<open>False\<close>.
\<close>

definition source_equals :: "source \<Rightarrow> 'ip operand \<Rightarrow> bool" where
  "source_equals self other =
     (case dataclass_eq self other of
        Some b \<Rightarrow> b
      | None \<Rightarrow>
          (case other of
             OSource src \<Rightarrow>
               (case dataclass_eq src (OSource self :: 'ip operand) of Some b \<Rightarrow> b | None \<Rightarrow> False)
           | OJson _ \<Rightarrow> False
           | OAddr _ \<Rightarrow> False))"

text \<open>\<^verbatim>\<open>hash(self)\<close> with \<^verbatim>\<open>__hash__\<close> set to \<^verbatim>\<open>None\<close>: unhashable.\<close>

definition source_hash :: "source \<Rightarrow> error + int" where
  "source_hash self = Inl TypeError"

section \<open>Zones (zone.py)\<close>

datatype Zone =
  Zone (namespace: "string option") (records: "DNSRecord list") (recursion: "source list")
       (allow_sources: "source list") (subsets: "Zone list") (parent: "Zone option")

text \<open>The property \<^verbatim>\<open>Zone.host\<close>.\<close>

fun host :: "Zone \<Rightarrow> string" where
  "host (Zone ns rs rc al sub p) =
     (case ns of None \<Rightarrow> '''' | Some n \<Rightarrow> n) @ (case p of None \<Rightarrow> ''.'' | Some q \<Rightarrow> host q)"

section \<open>The zone loader (db.py, \<^verbatim>\<open>load_zone\<close>)\<close>

text \<open>Line 41: \<^verbatim>\<open>zone.get("namespace") or None\<close>.\<close>

definition zone_namespace :: "(string \<times> json) list \<Rightarrow> json" where
  "zone_namespace zone = (let v = dict_get zone ''namespace'' in if truthy v then v else JNull)"

fun is_str :: "json \<Rightarrow> bool" where
  "is_str (JStr _) = True"
| "is_str _ = False"

text \<open>\<^verbatim>\<open>x.endswith(t)\<close>: a method of strings only; \<^verbatim>\<open>None\<close> has no such attribute.\<close>

fun py_endswith :: "json \<Rightarrow> string \<Rightarrow> error + bool" where
  "py_endswith (JStr s) t = Inr (length t \<le> length s \<and> drop (length s - length t) s = t)"
| "py_endswith _ t = Inl AttributeError"

text \<open>The text of a string inside an f-string; line 55 formats only a namespace that is a string.\<close>

fun str_of :: "json \<Rightarrow> string" where
  "str_of (JStr s) = s"
| "str_of _ = []"

text \<open>Line 55: the host the records of this zone are loaded under.\<close>

definition zone_host :: "json \<Rightarrow> Zone option \<Rightarrow> error + string" where
  "zone_host ns parent_zone =
     (if \<not> truthy ns then Inr ''.''
      else case parent_zone of
        None \<Rightarrow> Inl AttributeError
      | Some p \<Rightarrow> Inr (str_of ns @ ''.'' @ host p))"

text \<open>
  Lines 61 to 69 and 73 to 81: each address of the zone is looked up in the shared pool with
  \<^verbatim>\<open>src == addr\<close>; without a match a new source is built and appended to the pool.  The state is
  the pool and the list of the zone.
\<close>

fun lookup_sources :: "'ip iplib \<Rightarrow> (json \<Rightarrow> source) \<Rightarrow> json list \<Rightarrow> source list \<times> source list
    \<Rightarrow> error + source list \<times> source list" where
  "lookup_sources L cls [] st = Inr st"
| "lookup_sources L cls (addr # rest) (pool, sources_zone) =
     (case find (\<lambda>src. source_equals src (OJson addr :: 'ip operand)) pool of
        Some src \<Rightarrow> lookup_sources L cls rest (pool, sources_zone @ [src])
      | None \<Rightarrow>
          and_then (source_new L cls addr) (\<lambda>src.
            lookup_sources L cls rest (pool @ [src], sources_zone @ [src])))"

text \<open>
  \<^verbatim>\<open>load_zone\<close> on a decoded dict \<open>zone\<close>, the parent zone (\<open>None\<close> at the root) and the three
  shared pools.

  Line 83 calls \<^verbatim>\<open>Zone(parent_zone, namespace, records, recursion_sources_zone,
  allow_sources_zone)\<close> by position (the generated \<^verbatim>\<open>__init__\<close> checks no types) and binds the
  new object to the name \<^verbatim>\<open>zone\<close>.  Line 85 then evaluates \<^verbatim>\<open>zone.get("subzones", [])\<close> on that
  object: a \<^verbatim>\<open>Zone\<close> has no attribute \<^verbatim>\<open>get\<close>, so the call ends there with an \<^verbatim>\<open>AttributeError\<close>
  and lines 86 to 96 are never run.
\<close>

definition load_zone :: "'ip iplib \<Rightarrow> (string \<times> json) list \<Rightarrow> Zone option
    \<Rightarrow> source list \<Rightarrow> source list \<Rightarrow> PTRRecord list \<Rightarrow> error + Zone" where
  "load_zone L zone parent_zone recursion_sources allow_sources_pool ptr_records =
     (let ns = zone_namespace zone in
      if ns \<noteq> JNull \<and> \<not> is_str ns then Inl Exception_namespace_should_be_string
      else if parent_zone = None \<and> truthy ns then Inl Exception_subzone_cant_be_root
      else
        and_then (if parent_zone = None
                  then and_then (py_endswith ns ''.'') (\<lambda>b. Inr (\<not> b))
                  else Inr False) (\<lambda>no_root_identifier.
          if no_root_identifier then Inl Exception_root_identifier
          else if \<not> truthy ns \<and> truthy (dict_get zone ''records'') then Inl Exception_root_cant_have_record
          else
            and_then (zone_host ns parent_zone) (\<lambda>h.
            and_then (load_records (dict_get_list zone ''records'') h L ptr_records) (\<lambda>(records, ptr_records').
            and_then (py_iter (dict_get_list zone ''recursion'')) (\<lambda>addrs.
            and_then (lookup_sources L RecursionSource addrs (recursion_sources, [])) (\<lambda>(recursion_sources', recursion_sources_zone).
            and_then (py_iter (dict_get_list zone ''allow_sources'')) (\<lambda>addrs'.
            and_then (lookup_sources L RequestSource addrs' (allow_sources_pool, [])) (\<lambda>(allow_sources', allow_sources_zone).
              Inl AttributeError))))))))"

section \<open>Library answers for the examples\<close>

text \<open>
  For evaluation at concrete inputs: what the library answers on three texts, the IPv4
  loopback address and two spellings of the IPv6 loopback address.  A parsed address is its
  family and its integer value.
\<close>

datatype ipaddr = IPv4Addr nat | IPv6Addr nat

definition sample_ip_address :: "json \<Rightarrow> ipaddr option" where
  "sample_ip_address a =
     (if a = JStr ''127.0.0.1'' then Some (IPv4Addr 2130706433)
      else if a = JStr ''::1'' then Some (IPv6Addr 1)
      else if a = JStr ''0:0:0:0:0:0:0:1'' then Some (IPv6Addr 1)
      else None)"

definition sample_IPv4Address :: "json \<Rightarrow> ipaddr option" where
  "sample_IPv4Address a = (case sample_ip_address a of Some (IPv4Addr n) \<Rightarrow> Some (IPv4Addr n) | _ \<Rightarrow> None)"

definition sample_IPv6Address :: "json \<Rightarrow> ipaddr option" where
  "sample_IPv6Address a = (case sample_ip_address a of Some (IPv6Addr n) \<Rightarrow> Some (IPv6Addr n) | _ \<Rightarrow> None)"

definition sample_reverse_pointer :: "ipaddr \<Rightarrow> string" where
  "sample_reverse_pointer ip =
     (if ip = IPv4Addr 2130706433 then ''1.0.0.127.in-addr.arpa''
      else if ip = IPv6Addr 1 then ''1.0.0.0.0.0.0.0.0.0.0.0.0.0.0.0.0.0.0.0.0.0.0.0.0.0.0.0.0.0.0.0.ip6.arpa''
      else [])"

definition sample_lib :: "ipaddr iplib" where
  "sample_lib = \<lparr>IPv4Address = sample_IPv4Address, IPv6Address = sample_IPv6Address,
                 ip_address = sample_ip_address, reverse_pointer = sample_reverse_pointer\<rparr>"

section \<open>No call of the loaders returns\<close>

lemma record_params_sub: "set (record_params cls) \<subseteq> {''record_type''}"
  by (auto simp: record_params_def)

lemma params_no_key:
  assumes "k \<noteq> ''record_type''"
  shows "map_of (filter (\<lambda>param. fst param \<in> set (record_params cls)) d) k = None"
proof -
  have "k \<notin> fst ` set (filter (\<lambda>param. fst param \<in> set (record_params cls)) d)"
    using assms record_params_sub[of cls] by auto
  then show ?thesis by (simp add: map_of_eq_None_iff)
qed

lemma next_record_class_cases:
  "next_record_class L rtype = Inr cls \<Longrightarrow>
     cls_new cls = ARecord_new L \<or> cls_new cls = AAAARecord_new L \<or>
     cls_new cls = CNAMERecord_new \<or> cls_new cls = TXTRecord_new"
  by (cases rtype) (auto simp: next_record_class_def record_classes_def)

text \<open>
  The keywords line 25 keeps are at most \<^verbatim>\<open>record_type\<close>, so the field without default of
  every class is missing in the call of line 27.
\<close>

lemma cls_new_fails:
  assumes "next_record_class L rtype = Inr cls"
  shows "cls_new cls (filter (\<lambda>param. fst param \<in> set (record_params cls)) d) = Inl TypeError"
  using next_record_class_cases[OF assms]
  by (auto simp: ARecord_new_def AAAARecord_new_def CNAMERecord_new_def TXTRecord_new_def params_no_key)

lemma load_record_fails: "\<exists>e. load_record L h record st = Inl e"
proof (cases st)
  case (fields rs ps last)
  show ?thesis
    unfolding load_record_def fields
    by (auto simp: and_then_def cls_new_fails isinstance_PTRRecord_def split: sum.splits)
qed

lemma load_records_loop_nonempty: "rs \<noteq> [] \<Longrightarrow> \<exists>e. load_records_loop L h rs st = Inl e"
  using load_record_fails[of L h "hd rs" st] by (cases rs) (auto simp: and_then_def)

lemma load_records_fails: "\<exists>e. load_records raw h L ptrs = Inl e"
proof (cases "py_iter raw")
  case (Inl e)
  then show ?thesis by (simp add: load_records_def and_then_def)
next
  case (Inr rs)
  show ?thesis
  proof (cases rs)
    case Nil
    then show ?thesis using Inr by (simp add: load_records_def and_then_def)
  next
    case (Cons r rest)
    then obtain e where "load_records_loop L h rs ([], ptrs, None) = Inl e"
      using load_records_loop_nonempty[of rs L h] by blast
    then show ?thesis using Inr by (simp add: load_records_def and_then_def)
  qed
qed

lemma and_then_fails_later: "(\<And>x. \<exists>e. f x = Inl e) \<Longrightarrow> \<exists>e. and_then m f = Inl e"
  by (cases m) (auto simp: and_then_def)

lemma load_zone_fails: "\<exists>e. load_zone L zone parent_zone rs als ptrs = Inl e"
  unfolding load_zone_def Let_def
  by (auto intro!: and_then_fails_later split: prod.splits)

section \<open>The claims\<close>

text \<open>
  C1.  The claim: a root configuration without \<^verbatim>\<open>namespace\<close> and without records passes root
  validation, and \<^verbatim>\<open>load_zone\<close> with no parent returns the root zone.  The code does not: with
  no parent and no namespace, line 49 calls \<^verbatim>\<open>endswith\<close> on \<^verbatim>\<open>None\<close>, and every such call of
  \<^verbatim>\<open>load_zone\<close> ends with an \<^verbatim>\<open>AttributeError\<close>, whatever else the configuration holds.
\<close>

theorem load_zone_root_raises:
  "map_of zone ''namespace'' = None \<Longrightarrow> load_zone L zone None rs als ptrs = Inl AttributeError"
  by (simp add: load_zone_def zone_namespace_def dict_get_def and_then_def)

theorem load_zone_root_raises_witness:
  "map_of [(''records'', JList [])] ''namespace'' = None \<and>
   load_zone sample_lib [(''records'', JList [])] None [] [] [] = Inl AttributeError"
  using load_zone_root_raises [of "[(''records'', JList [])]" sample_lib "[]" "[]" "[]"] by simp

text \<open>
  C2.  The claim: \<^verbatim>\<open>load_records\<close> returns the complete list of accepted records.  The code
  returns the variable \<^verbatim>\<open>record_ins\<close>, the record of the last pass, where the list is
  \<^verbatim>\<open>records_ins\<close>; on the empty list no pass assigns it and the call raises
  \<^verbatim>\<open>UnboundLocalError\<close> where the claim has the empty list returned.
\<close>

theorem load_records_empty_raises:
  "load_records (JList []) h L ptrs = Inl UnboundLocalError"
  by (simp add: load_records_def and_then_def)

text \<open>
  C7.  The claim: a raw record of type \<^verbatim>\<open>PTR\<close> fails with the error of line 19
  (\<^verbatim>\<open>DirectPTRNotAllowed\<close>).  The test of line 18 asks whether a member of the enumeration is
  an instance of the class \<^verbatim>\<open>PTRRecord\<close>, which never holds; the record goes on to line 21,
  where no class matches and \<^verbatim>\<open>next\<close> raises \<^verbatim>\<open>StopIteration\<close>.
\<close>

theorem load_record_PTR_raises:
  "map_of d ''type'' = Some (JStr ''PTR'') \<Longrightarrow>
   load_record L h (JDict d) st = Inl StopIteration \<and>
   load_records (JList [JDict d]) h L ptrs = Inl StopIteration"
  by (cases st) (simp add: load_records_def load_record_def and_then_def isinstance_PTRRecord_def
      next_record_class_def record_classes_def)

theorem load_record_PTR_raises_witness:
  "map_of [(''type'', JStr ''PTR'')] ''type'' = Some (JStr ''PTR'') \<and>
   load_records (JList [JDict [(''type'', JStr ''PTR'')]]) ''.'' sample_lib [] = Inl StopIteration"
  using load_record_PTR_raises [of "[(''type'', JStr ''PTR'')]" sample_lib "''.''" "([], [], None)" "[]"]
  by simp

text \<open>
  C8.  The claim: a raw record of type \<^verbatim>\<open>A\<close> with an address that parses is built, with that
  address.  Line 23 intersects the annotations of the class with the one name \<^verbatim>\<open>record_type\<close>,
  so line 25 drops the key \<^verbatim>\<open>address\<close> and the constructor is called without its required
  argument: every raw record of type \<^verbatim>\<open>A\<close> ends in a \<^verbatim>\<open>TypeError\<close>.
\<close>

theorem load_record_A_raises:
  assumes "map_of d ''type'' = Some (JStr ''A'')"
  shows "load_record L h (JDict d) st = Inl TypeError \<and>
         load_records (JList [JDict d]) h L ptrs = Inl TypeError"
proof -
  obtain cls where cls: "next_record_class L A = Inr cls"
    by (simp add: next_record_class_def record_classes_def)
  have "load_record L h (JDict d) st' = Inl TypeError" for st'
    using assms cls cls_new_fails[OF cls]
    by (cases st') (simp add: load_record_def and_then_def isinstance_PTRRecord_def)
  then show ?thesis by (simp add: load_records_def and_then_def)
qed

theorem load_record_A_raises_witness:
  "map_of [(''type'', JStr ''A''), (''address'', JStr ''127.0.0.1'')] ''type'' = Some (JStr ''A'') \<and>
   IPv4Address sample_lib (JStr ''127.0.0.1'') = Some (IPv4Addr 2130706433) \<and>
   load_records (JList [JDict [(''type'', JStr ''A''), (''address'', JStr ''127.0.0.1'')]])
     ''.'' sample_lib [] = Inl TypeError"
  using load_record_A_raises [of "[(''type'', JStr ''A''), (''address'', JStr ''127.0.0.1'')]"
      sample_lib "''.''" "([], [], None)" "[]"]
  by (simp add: sample_lib_def sample_IPv4Address_def sample_ip_address_def)







text \<open>
  C5.  The claim: two sources built from two spellings of one address are equal, hash equally,
  and collapse to one pool entry.  The code: the comparison the two classes use is the one
  \<^verbatim>\<open>@dataclass\<close> generates, on the text of the address, and their \<^verbatim>\<open>__hash__\<close> is \<^verbatim>\<open>None\<close>.
  \<^verbatim>\<open>::1\<close> and \<^verbatim>\<open>0:0:0:0:0:0:0:1\<close> parse to one address, yet the two sources are unequal, hashing
  one raises \<^verbatim>\<open>TypeError\<close>, and the pool lookup, which compares a source with a string, finds
  nothing: the pool gets two entries, even for one spelling listed twice.
\<close>

theorem sources_not_collapsed:
  "ip_address sample_lib (JStr ''::1'') = ip_address sample_lib (JStr ''0:0:0:0:0:0:0:1'') \<and>
   ip_address sample_lib (JStr ''::1'') \<noteq> None \<and>
   source_equals (RecursionSource (JStr ''::1''))
     (OSource (RecursionSource (JStr ''0:0:0:0:0:0:0:1'')) :: ipaddr operand) = False \<and>
   source_hash (RecursionSource (JStr ''::1'')) = Inl TypeError \<and>
   lookup_sources sample_lib RecursionSource [JStr ''::1'', JStr ''0:0:0:0:0:0:0:1''] ([], []) =
     Inr ([RecursionSource (JStr ''::1''), RecursionSource (JStr ''0:0:0:0:0:0:0:1'')],
          [RecursionSource (JStr ''::1''), RecursionSource (JStr ''0:0:0:0:0:0:0:1'')]) \<and>
   lookup_sources sample_lib RecursionSource [JStr ''127.0.0.1'', JStr ''127.0.0.1''] ([], []) =
     Inr ([RecursionSource (JStr ''127.0.0.1''), RecursionSource (JStr ''127.0.0.1'')],
          [RecursionSource (JStr ''127.0.0.1''), RecursionSource (JStr ''127.0.0.1'')])"
  by (simp add: sample_lib_def sample_ip_address_def source_equals_def dataclass_eq_def
      source_hash_def source_new_def and_then_def)

text \<open>
  C6.  The claim: two records are equal exactly when all their fields, \<^verbatim>\<open>ttl\<close> included, are
  equal, and a raw list naming one record twice keeps the first.  The code: \<^verbatim>\<open>ttl\<close> is no
  dataclass field, so two records that differ in \<^verbatim>\<open>ttl\<close> alone are equal; and the raw list with
  one TXT record written twice is not reduced to one record, the load raises \<^verbatim>\<open>TypeError\<close> at
  the first of them.
\<close>

theorem record_eq_ignores_ttl:
  "record_eq (ARecord (JStr ''127.0.0.1'') (JBool False) (Member A) None)
             (ARecord (JStr ''127.0.0.1'') (JBool False) (Member A) (Some 60)) \<and>
   ttl (ARecord (JStr ''127.0.0.1'') (JBool False) (Member A) None)
     \<noteq> ttl (ARecord (JStr ''127.0.0.1'') (JBool False) (Member A) (Some 60)) \<and>
   load_records (JList [JDict [(''type'', JStr ''TXT''), (''text'', JStr ''hello'')],
                        JDict [(''type'', JStr ''TXT''), (''text'', JStr ''hello'')]])
     ''.'' sample_lib [] = Inl TypeError"
  by (simp add: load_records_def load_record_def and_then_def isinstance_PTRRecord_def
      next_record_class_def record_classes_def record_params_def TXTRecord_new_def
      unexpected_keyword_def)

text \<open>
  C9.  The claim: a zone with a parent and the namespace \<^verbatim>\<open>""\<close> fails with the namespace error.
  The code turns the empty namespace into \<^verbatim>\<open>None\<close> at line 41, which the namespace test of
  line 43 lets pass; with a parent, lines 46 and 49 do not apply, and line 52 treats the zone as
  a root: with records it fails with the error of line 53.
\<close>

theorem empty_namespace_not_InvalidNamespace:
  "load_zone sample_lib [(''namespace'', JStr ''''), (''records'', JList [JDict [(''type'', JStr ''TXT''), (''text'', JStr ''hello'')]])]
     (Some (Zone None [] [] [] [] None)) [] [] [] = Inl Exception_root_cant_have_record \<and>
   load_zone sample_lib [(''namespace'', JStr ''''), (''records'', JList [JDict [(''type'', JStr ''TXT''), (''text'', JStr ''hello'')]])]
     (Some (Zone None [] [] [] [] None)) [] [] [] \<noteq> Inl Exception_namespace_should_be_string"
  by (simp add: load_zone_def zone_namespace_def dict_get_def and_then_def)

text \<open>
  C9, as the code has it: a zone with a parent, the namespace \<^verbatim>\<open>""\<close> and a non-empty \<^verbatim>\<open>records\<close>
  value fails with the error of line 53, \<^verbatim>\<open>root cant have a record\<close>.
\<close>

theorem empty_namespace_with_records:
  "dict_get zone ''namespace'' = JStr '''' \<Longrightarrow> truthy (dict_get zone ''records'') \<Longrightarrow>
   load_zone L zone (Some p) rs als ptrs = Inl Exception_root_cant_have_record"
  by (simp add: load_zone_def zone_namespace_def and_then_def)

theorem empty_namespace_with_records_witness:
  "dict_get [(''namespace'', JStr ''''), (''records'', JList [JDict [(''type'', JStr ''A'')]])] ''namespace'' = JStr '''' \<and>
   truthy (dict_get [(''namespace'', JStr ''''), (''records'', JList [JDict [(''type'', JStr ''A'')]])] ''records'') \<and>
   load_zone sample_lib [(''namespace'', JStr ''''), (''records'', JList [JDict [(''type'', JStr ''A'')]])]
     (Some (Zone None [] [] [] [] None)) [] [] [] = Inl Exception_root_cant_have_record"
  using empty_namespace_with_records [of "[(''namespace'', JStr ''''), (''records'', JList [JDict [(''type'', JStr ''A'')]])]"
      sample_lib "Zone None [] [] [] [] None" "[]" "[]" "[]"]
  by (simp add: dict_get_def)

text \<open>
  C10.  Comparing a source with a string never raises.  The comparison the classes use gives
  \<^verbatim>\<open>False\<close> for every string; the method of the mixin gives a truth value for every string, and
  \<^verbatim>\<open>False\<close> when the string is no address.
\<close>

theorem source_equals_string:
  "source_equals src (OJson (JStr s) :: 'ip operand) = False \<and>
   (\<exists>b. IPComparableMixin_eq (L :: 'ip iplib) src (OJson (JStr s)) = Inr (Some b)) \<and>
   (ip_address L (JStr s) = None \<longrightarrow> IPComparableMixin_eq L src (OJson (JStr s)) = Inr (Some False))"
  by (auto simp: source_equals_def dataclass_eq_def IPComparableMixin_eq_def split: option.splits)

theorem source_equals_string_witness:
  "ip_address sample_lib (JStr ''localhost'') = None \<and>
   source_equals (RecursionSource (JStr ''127.0.0.1'')) (OJson (JStr ''localhost'') :: ipaddr operand) = False \<and>
   IPComparableMixin_eq sample_lib (RecursionSource (JStr ''127.0.0.1'')) (OJson (JStr ''localhost'')) = Inr (Some False)"
  using source_equals_string [of "RecursionSource (JStr ''127.0.0.1'')" "''localhost''" sample_lib]
  by (simp add: sample_lib_def sample_ip_address_def)

end
